theory Spec2Isabelle
  imports Main
begin

section \<open>The row store behind the query processor\<close>

text \<open>
  The role manager of \<^verbatim>\<open>auth/rest_role_manager.cc\<close> keeps no state of its own: every
  operation is a CQL statement handed to the query processor \<^verbatim>\<open>_qp\<close>. The embedding
  therefore threads one value, the query processor, through every operation. It holds the
  two tables, which consistency levels the cluster can currently serve, and the trace of
  everything that has been asked of it.

  Only the two consistency levels that the file names occur; a statement executed through
  the overload of \<^verbatim>\<open>execute_internal\<close> that takes no level carries \<open>None\<close>.
\<close>

datatype consistency_level = QUORUM | LOCAL_ONE

datatype error =
    unavailable_exception
  | nonexistant_role string
  | logic_error string

text \<open>
  A row of the roles table. The key column is always there; each other cell may be null.
  The \<^verbatim>\<open>member_of\<close> cell is a CQL set, held as the list of its elements.
\<close>

record roles_row =
  col_role :: string
  col_is_superuser :: "bool option"
  col_can_login :: "bool option"
  col_member_of :: "string list option"

text \<open>A row of the table created by \<^verbatim>\<open>role_attributes_table::creation_query\<close>.\<close>

record role_attributes_row =
  col_attr_role :: string
  col_attr_name :: string
  col_attr_value :: string

text \<open>The statements the file builds, one constructor per query text.\<close>

datatype statement =
    SELECT_role string
  | SELECT_all_roles
  | INSERT_role string bool bool
  | SELECT_attribute string string

datatype metadata_table = roles_table | role_attributes_table

datatype event =
    Table_ensured metadata_table
  | Schema_agreed
  | Executed statement "consistency_level option"

record query_processor =
  roles_rows :: "roles_row list"
  role_attributes_rows :: "role_attributes_row list"
  available :: "consistency_level option \<Rightarrow> bool"
  issued :: "event list"

text \<open>
  A future is a computation over the query processor that ends in a value or in an
  exception. \<open>then_future\<close> is \<^verbatim>\<open>.then\<close>: the continuation runs only when the
  future resolved without exception. \<open>handle_exception_type\<close> runs its handler on the
  exceptions of the given type only.
\<close>

type_synonym 'a future = "query_processor \<Rightarrow> (error + 'a) \<times> query_processor"

definition make_ready_future :: "'a \<Rightarrow> 'a future" where
  "make_ready_future v = (\<lambda>qp. (Inr v, qp))"

definition make_exception_future :: "error \<Rightarrow> 'a future" where
  "make_exception_future e = (\<lambda>qp. (Inl e, qp))"

definition then_future :: "'a future \<Rightarrow> ('a \<Rightarrow> 'b future) \<Rightarrow> 'b future" where
  "then_future m k = (\<lambda>qp. case m qp of
      (Inl e, qp') \<Rightarrow> (Inl e, qp')
    | (Inr v, qp') \<Rightarrow> k v qp')"

definition handle_exception_type :: "'a future \<Rightarrow> (error \<Rightarrow> bool) \<Rightarrow> (error \<Rightarrow> 'a future) \<Rightarrow> 'a future" where
  "handle_exception_type m of_type handler = (\<lambda>qp. case m qp of
      (Inl e, qp') \<Rightarrow> (if of_type e then handler e qp' else (Inl e, qp'))
    | (Inr v, qp') \<Rightarrow> (Inr v, qp'))"

text \<open>
  \<^verbatim>\<open>execute_internal\<close>: the statement is recorded as issued; when the cluster cannot
  serve the requested level it raises \<^verbatim>\<open>unavailable_exception\<close> and the tables stay as
  they are, otherwise the statement runs.
\<close>

definition execute_internal ::
  "statement \<Rightarrow> consistency_level option \<Rightarrow> (query_processor \<Rightarrow> 'a \<times> query_processor) \<Rightarrow> 'a future" where
  "execute_internal stmt cl run = (\<lambda>qp.
     let qp' = qp\<lparr>issued := issued qp @ [Executed stmt cl]\<rparr> in
     if available qp cl then (case run qp' of (v, qp'') \<Rightarrow> (Inr v, qp''))
     else (Inl unavailable_exception, qp'))"

text \<open>\<^verbatim>\<open>SELECT * FROM roles WHERE role = ?\<close>\<close>

definition select_role :: "string \<Rightarrow> consistency_level option \<Rightarrow> roles_row list future" where
  "select_role role_name cl =
     execute_internal (SELECT_role role_name) cl
       (\<lambda>qp. (filter (\<lambda>row. col_role row = role_name) (roles_rows qp), qp))"

text \<open>\<^verbatim>\<open>SELECT role,member_of from roles\<close>\<close>

definition select_all_roles :: "consistency_level option \<Rightarrow> roles_row list future" where
  "select_all_roles cl = execute_internal SELECT_all_roles cl (\<lambda>qp. (roles_rows qp, qp))"

text \<open>
  \<^verbatim>\<open>INSERT INTO roles (role, is_superuser, can_login) VALUES (?, ?, ?)\<close>: a CQL insert is
  an upsert of the named columns. The row with that key gets the two cells overwritten and
  keeps its \<^verbatim>\<open>member_of\<close>; if there is none, a row with a null \<^verbatim>\<open>member_of\<close> appears.
\<close>

fun upsert_role :: "string \<Rightarrow> bool \<Rightarrow> bool \<Rightarrow> roles_row list \<Rightarrow> roles_row list" where
  "upsert_role role_name su cl [] =
     [\<lparr>col_role = role_name, col_is_superuser = Some su, col_can_login = Some cl, col_member_of = None\<rparr>]"
| "upsert_role role_name su cl (row # rows) =
     (if col_role row = role_name
      then row\<lparr>col_is_superuser := Some su, col_can_login := Some cl\<rparr> # rows
      else row # upsert_role role_name su cl rows)"

definition insert_role :: "string \<Rightarrow> bool \<Rightarrow> bool \<Rightarrow> consistency_level option \<Rightarrow> unit future" where
  "insert_role role_name su cl lvl =
     execute_internal (INSERT_role role_name su cl) lvl
       (\<lambda>qp. ((), qp\<lparr>roles_rows := upsert_role role_name su cl (roles_rows qp)\<rparr>))"

text \<open>\<^verbatim>\<open>SELECT name, value FROM role_attributes WHERE role = ? AND name = ?\<close>\<close>

definition select_attribute :: "string \<Rightarrow> string \<Rightarrow> role_attributes_row list future" where
  "select_attribute role_name attribute_name =
     execute_internal (SELECT_attribute role_name attribute_name) None
       (\<lambda>qp. (filter (\<lambda>row. col_attr_role row = role_name \<and> col_attr_name row = attribute_name)
                 (role_attributes_rows qp), qp))"

section \<open>The role manager\<close>

text \<open>
  \<^verbatim>\<open>role_set\<close> is an unordered set of names. It is held as a list without repetition;
  only the set of its elements is observable, and the order in which the source walks it is
  the order of the list.
\<close>

type_synonym role_set = "string list"

definition role_set_insert :: "string \<Rightarrow> role_set \<Rightarrow> role_set" where
  "role_set_insert x roles = (if x \<in> set roles then roles else roles @ [x])"

type_synonym attribute_vals = "string \<rightharpoonup> string"

definition emplace :: "string \<Rightarrow> string \<Rightarrow> attribute_vals \<Rightarrow> attribute_vals" where
  "emplace k v m = (if m k = None then m(k \<mapsto> v) else m)"

record role_record =
  name :: string
  is_superuser :: bool
  can_login :: bool
  member_of :: role_set

record role_config =
  cfg_is_superuser :: bool
  cfg_can_login :: bool

text \<open>Cell accessors of \<^verbatim>\<open>untyped_result_set_row\<close>.\<close>

definition has :: "'a option \<Rightarrow> bool" where
  "has cell = (cell \<noteq> None)"

definition is_null :: "'a option \<Rightarrow> bool" where
  "is_null cell = (cell = None)"

definition get_or :: "'a option \<Rightarrow> 'a \<Rightarrow> 'a" where
  "get_or cell dflt = (case cell of None \<Rightarrow> dflt | Some v \<Rightarrow> v)"

text \<open>
  The reserved name \<^verbatim>\<open>meta::DEFAULT_SUPERUSER_NAME\<close> is declared outside this file; every
  operation that depends on it takes it as its first argument \<open>dsn\<close>.
\<close>

definition consistency_for_role :: "string \<Rightarrow> string \<Rightarrow> consistency_level" where
  "consistency_for_role dsn role_name = (if role_name = dsn then QUORUM else LOCAL_ONE)"

definition has_can_login :: "roles_row \<Rightarrow> bool" where
  "has_can_login row = (has (col_can_login row) \<and> \<not> is_null (col_can_login row))"

text \<open>
  Modelled from the spec: \<^verbatim>\<open>default_role_row_satisfies\<close>, whose body is not in this file.
  The spec has it check "whether a record satisfying: is the default role and [the
  predicate] already exists", and has the record of the default role read at quorum.
\<close>

definition default_role_row_satisfies :: "string \<Rightarrow> (roles_row \<Rightarrow> bool) \<Rightarrow> bool future" where
  "default_role_row_satisfies dsn p =
     then_future (select_role dsn (Some QUORUM)) (\<lambda>results.
       make_ready_future (case results of [] \<Rightarrow> False | row # _ \<Rightarrow> p row))"

text \<open>
  Modelled from the spec: \<^verbatim>\<open>create_metadata_table_if_missing\<close> and
  \<^verbatim>\<open>wait_for_schema_agreement\<close>, whose bodies are not in this file. The spec has the first
  ensure that the table exists and the second be the barrier the bootstrap waits on; here
  each leaves its mark in the trace.
\<close>

definition create_metadata_table_if_missing :: "metadata_table \<Rightarrow> unit future" where
  "create_metadata_table_if_missing t = (\<lambda>qp. (Inr (), qp\<lparr>issued := issued qp @ [Table_ensured t]\<rparr>))"

definition wait_for_schema_agreement :: "unit future" where
  "wait_for_schema_agreement = (\<lambda>qp. (Inr (), qp\<lparr>issued := issued qp @ [Schema_agreed]\<rparr>))"

text \<open>
  \<^verbatim>\<open>when_all_succeed\<close> of two futures: both are started and both are awaited, whatever
  the other does, and the result fails when one of them failed. Which of the two reaches the
  store first is not fixed by the code, so it is an argument.
\<close>

definition when_all_succeed :: "bool \<Rightarrow> unit future \<Rightarrow> unit future \<Rightarrow> unit future" where
  "when_all_succeed first_goes_first f g = (\<lambda>qp.
     if first_goes_first
     then (case f qp of (rf, qp1) \<Rightarrow>
             (case g qp1 of (rg, qp2) \<Rightarrow> ((case rf of Inl e \<Rightarrow> Inl e | Inr _ \<Rightarrow> rg), qp2)))
     else (case g qp of (rg, qp1) \<Rightarrow>
             (case f qp1 of (rf, qp2) \<Rightarrow> ((case rf of Inl e \<Rightarrow> Inl e | Inr _ \<Rightarrow> rg), qp2))))"

definition create_metadata_tables_if_missing :: "bool \<Rightarrow> unit future" where
  "create_metadata_tables_if_missing roles_first =
     when_all_succeed roles_first
       (create_metadata_table_if_missing roles_table)
       (create_metadata_table_if_missing role_attributes_table)"

definition create_default_role_if_missing :: "string \<Rightarrow> unit future" where
  "create_default_role_if_missing dsn =
     handle_exception_type
       (then_future (default_role_row_satisfies dsn has_can_login) (\<lambda>exists.
          if \<not> exists
          then then_future (insert_role dsn True True (Some QUORUM)) (\<lambda>_. make_ready_future ())
          else make_ready_future ()))
       (\<lambda>e. e = unavailable_exception)
       (\<lambda>e. make_exception_future e)"

text \<open>
  The role manager itself: its query processor \<^verbatim>\<open>_qp\<close> and the future \<^verbatim>\<open>_stopped\<close> of
  the work it has left running.
\<close>

record rest_role_manager =
  m_qp :: query_processor
  m_stopped :: "unit future"

text \<open>
  The task that \<^verbatim>\<open>start\<close> leaves running, the body of its \<^verbatim>\<open>seastar::async\<close>: wait for
  schema agreement, then see to the default role.
\<close>

definition default_role_task :: "string \<Rightarrow> unit future" where
  "default_role_task dsn =
     then_future wait_for_schema_agreement (\<lambda>_. create_default_role_if_missing dsn)"

text \<open>
  Modelled from the spec: \<^verbatim>\<open>once_among_shards\<close>, whose body is not in this file. The spec
  has "exactly one execution context per process (not per worker/shard)" perform the work;
  \<open>chosen\<close> says whether the caller is that one, and every other caller is done at once.
\<close>

definition once_among_shards ::
  "bool \<Rightarrow> (rest_role_manager \<Rightarrow> (error + unit) \<times> rest_role_manager) \<Rightarrow>
   rest_role_manager \<Rightarrow> (error + unit) \<times> rest_role_manager" where
  "once_among_shards chosen task = (if chosen then task else (\<lambda>m. (Inr (), m)))"

text \<open>
  \<^verbatim>\<open>start\<close> resolves as soon as the tables are ensured. Its continuation only stores in
  \<^verbatim>\<open>_stopped\<close> what \<^verbatim>\<open>do_after_system_ready\<close> makes of the task; it runs nothing of it.
  \<^verbatim>\<open>do_after_system_ready\<close> is declared outside this file and is an argument.
\<close>

definition start ::
  "string \<Rightarrow> (unit future \<Rightarrow> unit future) \<Rightarrow> bool \<Rightarrow> bool \<Rightarrow>
   rest_role_manager \<Rightarrow> (error + unit) \<times> rest_role_manager" where
  "start dsn do_after_system_ready chosen roles_first =
     once_among_shards chosen (\<lambda>m.
       case create_metadata_tables_if_missing roles_first (m_qp m) of
         (Inl e, qp') \<Rightarrow> (Inl e, m\<lparr>m_qp := qp'\<rparr>)
       | (Inr _, qp') \<Rightarrow>
           (Inr (), m\<lparr>m_qp := qp', m_stopped := do_after_system_ready (default_role_task dsn)\<rparr>))"

definition find_record :: "string \<Rightarrow> string \<Rightarrow> role_record option future" where
  "find_record dsn role_name =
     then_future (select_role role_name (Some (consistency_for_role dsn role_name))) (\<lambda>results.
       make_ready_future (case results of
           [] \<Rightarrow> None
         | row # _ \<Rightarrow> Some \<lparr>name = col_role row,
                           is_superuser = get_or (col_is_superuser row) False,
                           can_login = get_or (col_can_login row) False,
                           member_of = (case col_member_of row of Some ms \<Rightarrow> ms | None \<Rightarrow> [])\<rparr>))"

definition require_record :: "string \<Rightarrow> string \<Rightarrow> role_record future" where
  "require_record dsn role_name =
     then_future (find_record dsn role_name) (\<lambda>mr.
       case mr of
         None \<Rightarrow> make_exception_future (nonexistant_role role_name)
       | Some r \<Rightarrow> make_ready_future r)"

definition collect_roles :: "string \<Rightarrow> string \<Rightarrow> role_set \<Rightarrow> role_set future" where
  "collect_roles dsn grantee_name roles =
     then_future (require_record dsn grantee_name) (\<lambda>r.
       make_ready_future (foldl (\<lambda>acc role_name. role_set_insert role_name acc) roles (member_of r)))"

text \<open>The query mode \<open>m\<close> is accepted and never read.\<close>

datatype recursive_role_query = yes | no

definition query_granted :: "string \<Rightarrow> string \<Rightarrow> recursive_role_query \<Rightarrow> role_set future" where
  "query_granted dsn grantee_name m = collect_roles dsn grantee_name [grantee_name]"

definition exists_role :: "string \<Rightarrow> bool future" where
  "exists_role role_name = make_ready_future True"

definition is_superuser_role :: "string \<Rightarrow> string \<Rightarrow> bool future" where
  "is_superuser_role dsn role_name =
     then_future (find_record dsn role_name) (\<lambda>mr.
       make_ready_future (case mr of Some r \<Rightarrow> is_superuser r | None \<Rightarrow> False))"

definition can_login_role :: "string \<Rightarrow> string \<Rightarrow> bool future" where
  "can_login_role dsn role_name =
     then_future (find_record dsn role_name) (\<lambda>mr.
       make_ready_future (case mr of Some r \<Rightarrow> can_login r | None \<Rightarrow> False))"

definition create_or_replace :: "string \<Rightarrow> string \<Rightarrow> role_config \<Rightarrow> unit future" where
  "create_or_replace dsn role_name c =
     insert_role role_name (cfg_is_superuser c) (cfg_can_login c)
       (Some (consistency_for_role dsn role_name))"

definition create :: "string \<Rightarrow> string \<Rightarrow> role_config \<Rightarrow> unit future" where
  "create dsn role_name c = create_or_replace dsn role_name c"

record role_config_update =
  upd_is_superuser :: "bool option"
  upd_can_login :: "bool option"

definition alter :: "string \<Rightarrow> role_config_update \<Rightarrow> unit future" where
  "alter role_name u = make_ready_future ()"

definition drop_role :: "string \<Rightarrow> unit future" where
  "drop_role role_name = make_exception_future (logic_error ''Not Implemented'')"

definition grant :: "string \<Rightarrow> string \<Rightarrow> unit future" where
  "grant grantee_name role_name = make_exception_future (logic_error ''Not Implemented'')"

definition revoke :: "string \<Rightarrow> string \<Rightarrow> unit future" where
  "revoke revokee_name role_name = make_exception_future (logic_error ''Not Implemented'')"

text \<open>The body of the \<^verbatim>\<open>for_each\<close> of \<^verbatim>\<open>query_all\<close>, and the loop itself.\<close>

definition query_all_row :: "role_set \<Rightarrow> roles_row \<Rightarrow> role_set" where
  "query_all_row roles row =
     (let roles' = role_set_insert (col_role row) roles in
      case col_member_of row of
        Some members \<Rightarrow> foldl (\<lambda>acc member. role_set_insert member acc) roles' members
      | None \<Rightarrow> roles')"

definition query_all :: "role_set future" where
  "query_all =
     then_future (select_all_roles (Some QUORUM)) (\<lambda>results.
       make_ready_future (foldl query_all_row [] results))"

definition get_attribute :: "string \<Rightarrow> string \<Rightarrow> string option future" where
  "get_attribute role_name attribute_name =
     then_future (select_attribute role_name attribute_name) (\<lambda>result_set.
       make_ready_future (case result_set of
           [] \<Rightarrow> None
         | row # _ \<Rightarrow> Some (col_attr_value row)))"

text \<open>
  The \<^verbatim>\<open>parallel_for_each\<close> of \<^verbatim>\<open>query_attribute_for_all\<close>: every role is looked up, also
  after one lookup has failed, and the first exception is the one reported. The lookups
  are taken in the order of the list.
\<close>

fun fetch_attributes :: "string \<Rightarrow> role_set \<Rightarrow> attribute_vals \<Rightarrow> attribute_vals future" where
  "fetch_attributes attribute_name [] role_to_att_val = make_ready_future role_to_att_val"
| "fetch_attributes attribute_name (role # roles) role_to_att_val = (\<lambda>qp.
     case get_attribute role attribute_name qp of
       (Inl e, qp') \<Rightarrow>
         (case fetch_attributes attribute_name roles role_to_att_val qp' of (_, qp'') \<Rightarrow> (Inl e, qp''))
     | (Inr att_val, qp') \<Rightarrow>
         fetch_attributes attribute_name roles
           (case att_val of Some v \<Rightarrow> emplace role v role_to_att_val | None \<Rightarrow> role_to_att_val) qp')"

definition query_attribute_for_all :: "string \<Rightarrow> attribute_vals future" where
  "query_attribute_for_all attribute_name =
     then_future query_all (\<lambda>roles. fetch_attributes attribute_name roles Map.empty)"

section \<open>Two coordinators on one store\<close>

text \<open>
  \<^verbatim>\<open>create_default_role_if_missing\<close> awaits the store twice, once for the check and once
  for the insert, and another coordinator's statements can reach the store in between. A
  coordinator is therefore at its check, at its insert, or finished with the outcome of
  the step; \<open>coordinator_step\<close> takes it through one statement. The handler of
  \<^verbatim>\<open>unavailable_exception\<close> passes the exception on, so a failed statement finishes the
  coordinator with that exception.
\<close>

datatype coordinator = Checking | Inserting | Finished "error + unit"

fun coordinator_step :: "string \<Rightarrow> coordinator \<Rightarrow> query_processor \<Rightarrow> coordinator \<times> query_processor" where
  "coordinator_step dsn Checking qp =
     (case default_role_row_satisfies dsn has_can_login qp of
        (Inl e, qp') \<Rightarrow> (Finished (Inl e), qp')
      | (Inr exists, qp') \<Rightarrow> (if \<not> exists then Inserting else Finished (Inr ()), qp'))"
| "coordinator_step dsn Inserting qp =
     (case insert_role dsn True True (Some QUORUM) qp of
        (Inl e, qp') \<Rightarrow> (Finished (Inl e), qp')
      | (Inr _, qp') \<Rightarrow> (Finished (Inr ()), qp'))"
| "coordinator_step dsn (Finished r) qp = (Finished r, qp)"




text \<open>
  What the check of the default role answers on a table, and what holds of the two
  coordinators throughout a run: the key and the served quorum stay; as long as the check
  would still answer no, nobody has finished; once the table is as \<open>P\<close> wants it, nobody
  has failed.
\<close>

definition default_row_has_can_login :: "string \<Rightarrow> roles_row list \<Rightarrow> bool" where
  "default_row_has_can_login dsn rows =
     (case filter (\<lambda>row. col_role row = dsn) rows of [] \<Rightarrow> False | row # _ \<Rightarrow> has_can_login row)"


section \<open>Well-formed tables and sample stores\<close>

text \<open>
  Both tables have a primary key: the role name in the roles table, the pair of role and
  attribute name in the attributes table.
\<close>

definition primary_key :: "query_processor \<Rightarrow> bool" where
  "primary_key qp = distinct (map col_role (roles_rows qp))"

definition attribute_primary_key :: "query_processor \<Rightarrow> bool" where
  "attribute_primary_key qp =
     distinct (map (\<lambda>row. (col_attr_role row, col_attr_name row)) (role_attributes_rows qp))"

text \<open>The names in the \<^verbatim>\<open>member_of\<close> cell of a row; none when the cell is null.\<close>

definition members :: "roles_row \<Rightarrow> string set" where
  "members row = (case col_member_of row of Some ms \<Rightarrow> set ms | None \<Rightarrow> {})"

text \<open>
  A store with no rows at all, and a store in which \<open>A\<close> is a member of \<open>B\<close>, \<open>B\<close> is
  a member of \<open>C\<close>, and \<open>C\<close> has no row of its own; \<open>A\<close> and \<open>C\<close> carry the attribute
  \<open>X\<close>, \<open>B\<close> does not. Every consistency level can be served in both.
\<close>

definition empty_store :: query_processor where
  "empty_store =
     \<lparr>roles_rows = [], role_attributes_rows = [], available = (\<lambda>_. True), issued = []\<rparr>"

definition row_A :: roles_row where
  "row_A = \<lparr>col_role = ''A'', col_is_superuser = None, col_can_login = Some True,
            col_member_of = Some [''B'']\<rparr>"

definition row_B :: roles_row where
  "row_B = \<lparr>col_role = ''B'', col_is_superuser = Some False, col_can_login = Some False,
            col_member_of = Some [''C'']\<rparr>"

definition sample_store :: query_processor where
  "sample_store =
     \<lparr>roles_rows = [row_A, row_B],
      role_attributes_rows =
        [\<lparr>col_attr_role = ''A'', col_attr_name = ''X'', col_attr_value = ''1''\<rparr>,
         \<lparr>col_attr_role = ''B'', col_attr_name = ''Y'', col_attr_value = ''2''\<rparr>,
         \<lparr>col_attr_role = ''C'', col_attr_name = ''X'', col_attr_value = ''3''\<rparr>],
      available = (\<lambda>_. True),
      issued = []\<rparr>"

section \<open>What each operation does to the query processor\<close>

lemma select_role_apply:
  "select_role n cl qp =
     ((if available qp cl then Inr (filter (\<lambda>row. col_role row = n) (roles_rows qp)) else Inl unavailable_exception),
      qp\<lparr>issued := issued qp @ [Executed (SELECT_role n) cl]\<rparr>)"
  by (simp add: select_role_def execute_internal_def Let_def)

lemma select_all_roles_apply:
  "select_all_roles cl qp =
     ((if available qp cl then Inr (roles_rows qp) else Inl unavailable_exception),
      qp\<lparr>issued := issued qp @ [Executed SELECT_all_roles cl]\<rparr>)"
  by (simp add: select_all_roles_def execute_internal_def Let_def)

lemma insert_role_apply:
  "insert_role n su cl lvl qp =
     (if available qp lvl
      then (Inr (), qp\<lparr>roles_rows := upsert_role n su cl (roles_rows qp),
                        issued := issued qp @ [Executed (INSERT_role n su cl) lvl]\<rparr>)
      else (Inl unavailable_exception, qp\<lparr>issued := issued qp @ [Executed (INSERT_role n su cl) lvl]\<rparr>))"
  by (simp add: insert_role_def execute_internal_def Let_def)

lemma select_attribute_apply:
  "select_attribute r a qp =
     ((if available qp None
       then Inr (filter (\<lambda>row. col_attr_role row = r \<and> col_attr_name row = a) (role_attributes_rows qp))
       else Inl unavailable_exception),
      qp\<lparr>issued := issued qp @ [Executed (SELECT_attribute r a) None]\<rparr>)"
  by (simp add: select_attribute_def execute_internal_def Let_def)

lemma find_record_apply:
  "find_record dsn n qp =
     ((if available qp (Some (consistency_for_role dsn n))
       then Inr (case filter (\<lambda>row. col_role row = n) (roles_rows qp) of
                   [] \<Rightarrow> None
                 | row # _ \<Rightarrow> Some \<lparr>name = col_role row,
                           is_superuser = get_or (col_is_superuser row) False,
                           can_login = get_or (col_can_login row) False,
                           member_of = (case col_member_of row of Some ms \<Rightarrow> ms | None \<Rightarrow> [])\<rparr>)
       else Inl unavailable_exception),
      qp\<lparr>issued := issued qp @ [Executed (SELECT_role n) (Some (consistency_for_role dsn n))]\<rparr>)"
  by (simp add: find_record_def then_future_def select_role_apply make_ready_future_def)

lemma query_granted_apply:
  "query_granted dsn g m qp =
     ((if available qp (Some (consistency_for_role dsn g))
       then (case filter (\<lambda>row. col_role row = g) (roles_rows qp) of
               [] \<Rightarrow> Inl (nonexistant_role g)
             | row # _ \<Rightarrow> Inr (foldl (\<lambda>acc x. role_set_insert x acc) [g]
                              (case col_member_of row of Some ms \<Rightarrow> ms | None \<Rightarrow> [])))
       else Inl unavailable_exception),
      qp\<lparr>issued := issued qp @ [Executed (SELECT_role g) (Some (consistency_for_role dsn g))]\<rparr>)"
  by (simp add: query_granted_def collect_roles_def require_record_def then_future_def
      find_record_apply make_ready_future_def make_exception_future_def split: list.splits)

lemma default_role_row_satisfies_apply:
  "default_role_row_satisfies dsn p qp =
     ((if available qp (Some QUORUM)
       then Inr (case filter (\<lambda>row. col_role row = dsn) (roles_rows qp) of [] \<Rightarrow> False | row # _ \<Rightarrow> p row)
       else Inl unavailable_exception),
      qp\<lparr>issued := issued qp @ [Executed (SELECT_role dsn) (Some QUORUM)]\<rparr>)"
  by (simp add: default_role_row_satisfies_def then_future_def select_role_apply make_ready_future_def)

lemma create_default_role_if_missing_apply:
  "create_default_role_if_missing dsn qp =
     (if \<not> available qp (Some QUORUM)
      then (Inl unavailable_exception, qp\<lparr>issued := issued qp @ [Executed (SELECT_role dsn) (Some QUORUM)]\<rparr>)
      else if (case filter (\<lambda>row. col_role row = dsn) (roles_rows qp) of [] \<Rightarrow> False | row # _ \<Rightarrow> has_can_login row)
      then (Inr (), qp\<lparr>issued := issued qp @ [Executed (SELECT_role dsn) (Some QUORUM)]\<rparr>)
      else (Inr (), qp\<lparr>roles_rows := upsert_role dsn True True (roles_rows qp),
                        issued := issued qp @ [Executed (SELECT_role dsn) (Some QUORUM),
                                               Executed (INSERT_role dsn True True) (Some QUORUM)]\<rparr>))"
  by (simp add: create_default_role_if_missing_def handle_exception_type_def then_future_def
      default_role_row_satisfies_apply insert_role_apply make_ready_future_def
      make_exception_future_def)

lemma create_metadata_tables_if_missing_apply:
  "create_metadata_tables_if_missing roles_first qp =
     (Inr (), qp\<lparr>issued := issued qp @
        (if roles_first then [Table_ensured roles_table, Table_ensured role_attributes_table]
         else [Table_ensured role_attributes_table, Table_ensured roles_table])\<rparr>)"
  by (simp add: create_metadata_tables_if_missing_def when_all_succeed_def
      create_metadata_table_if_missing_def)

lemma start_apply:
  "start dsn do_after_system_ready True roles_first m =
     (Inr (), m\<lparr>m_qp := (m_qp m)\<lparr>issued := issued (m_qp m) @
                   (if roles_first then [Table_ensured roles_table, Table_ensured role_attributes_table]
                    else [Table_ensured role_attributes_table, Table_ensured roles_table])\<rparr>,
                 m_stopped := do_after_system_ready (default_role_task dsn)\<rparr>)"
  by (simp add: start_def once_among_shards_def create_metadata_tables_if_missing_apply)

lemma default_role_task_apply:
  "default_role_task dsn qp =
     create_default_role_if_missing dsn (qp\<lparr>issued := issued qp @ [Schema_agreed]\<rparr>)"
  by (simp add: default_role_task_def wait_for_schema_agreement_def then_future_def)

lemma get_attribute_apply:
  "get_attribute r a qp =
     ((if available qp None
       then Inr (case filter (\<lambda>row. col_attr_role row = r \<and> col_attr_name row = a) (role_attributes_rows qp) of
                   [] \<Rightarrow> None | row # _ \<Rightarrow> Some (col_attr_value row))
       else Inl unavailable_exception),
      qp\<lparr>issued := issued qp @ [Executed (SELECT_attribute r a) None]\<rparr>)"
  by (simp add: get_attribute_def then_future_def select_attribute_apply make_ready_future_def)

lemma query_all_apply:
  "query_all qp =
     ((if available qp (Some QUORUM) then Inr (foldl query_all_row [] (roles_rows qp))
       else Inl unavailable_exception),
      qp\<lparr>issued := issued qp @ [Executed SELECT_all_roles (Some QUORUM)]\<rparr>)"
  by (simp add: query_all_def then_future_def select_all_roles_apply make_ready_future_def)

section \<open>Keys, upserts and role sets\<close>

lemma filter_unique_key:
  "distinct (map f xs) \<Longrightarrow> x \<in> set xs \<Longrightarrow> filter (\<lambda>y. f y = f x) xs = [x]"
proof (induction xs)
  case Nil
  then show ?case by simp
next
  case (Cons a xs)
  show ?case
  proof (cases "a = x")
    case True
    have "f x \<notin> f ` set xs" using Cons.prems(1) True by simp
    then have "\<And>y. y \<in> set xs \<Longrightarrow> f y \<noteq> f x" by (metis imageI)
    then have "filter (\<lambda>y. f y = f x) xs = []" by (simp add: filter_empty_conv)
    then show ?thesis using True by simp
  next
    case False
    then have in_xs: "x \<in> set xs" using Cons.prems(2) by simp
    have "f a \<notin> f ` set xs" using Cons.prems(1) by simp
    then have "f a \<noteq> f x" using in_xs by (metis imageI)
    moreover have "filter (\<lambda>y. f y = f x) xs = [x]" using Cons.IH Cons.prems(1) in_xs by simp
    ultimately show ?thesis by simp
  qed
qed

lemma filter_key_unique:
  "distinct (map col_role rows) \<Longrightarrow> row \<in> set rows \<Longrightarrow>
   filter (\<lambda>r. col_role r = col_role row) rows = [row]"
  by (rule filter_unique_key)

lemma filter_attr_key_unique:
  assumes "distinct (map (\<lambda>row. (col_attr_role row, col_attr_name row)) rows)" and "row \<in> set rows"
  shows "filter (\<lambda>r. col_attr_role r = col_attr_role row \<and> col_attr_name r = col_attr_name row) rows = [row]"
  using filter_unique_key [OF assms] by simp

lemma filter_key_absent:
  "\<forall>row\<in>set rows. col_role row \<noteq> n \<Longrightarrow> filter (\<lambda>r. col_role r = n) rows = []"
  by (simp add: filter_empty_conv)

lemma has_can_login_iff: "has_can_login row \<longleftrightarrow> col_can_login row \<noteq> None"
  by (simp add: has_can_login_def has_def is_null_def)

lemma upsert_role_keys:
  "map col_role (upsert_role n su cl rows) =
     (if n \<in> set (map col_role rows) then map col_role rows else map col_role rows @ [n])"
  by (induction rows) auto

lemma upsert_role_distinct:
  "distinct (map col_role rows) \<Longrightarrow> distinct (map col_role (upsert_role n su cl rows))"
  by (simp add: upsert_role_keys)

lemma insert_role_keeps_primary_key:
  "primary_key qp \<Longrightarrow> primary_key (snd (insert_role n su cl lvl qp))"
  by (simp add: insert_role_apply primary_key_def upsert_role_distinct)

lemma upsert_role_written:
  "\<exists>row\<in>set (upsert_role n su cl rows).
     col_role row = n \<and> col_is_superuser row = Some su \<and> col_can_login row = Some cl"
  by (induction rows) auto

lemma upsert_role_absent:
  "\<forall>row\<in>set rows. col_role row \<noteq> n \<Longrightarrow>
   upsert_role n su cl rows =
     rows @ [\<lparr>col_role = n, col_is_superuser = Some su, col_can_login = Some cl, col_member_of = None\<rparr>]"
  by (induction rows) auto

lemma upsert_role_present:
  "distinct (map col_role rows) \<Longrightarrow> row \<in> set rows \<Longrightarrow> col_role row = n \<Longrightarrow>
   set (upsert_role n su cl rows) =
     insert (row\<lparr>col_is_superuser := Some su, col_can_login := Some cl\<rparr>) (set rows - {row})"
proof (induction rows)
  case Nil
  then show ?case by simp
next
  case (Cons a rows)
  show ?case
  proof (cases "a = row")
    case True
    have "row \<notin> set rows" using Cons.prems(1) True by auto
    then show ?thesis using True Cons.prems(3) by auto
  next
    case False
    then have in_rows: "row \<in> set rows" using Cons.prems(2) by simp
    have "col_role a \<notin> col_role ` set rows" using Cons.prems(1) by simp
    then have ne: "col_role a \<noteq> n" using in_rows Cons.prems(3) by (metis imageI)
    have "a \<notin> set rows" using Cons.prems(1) by auto
    then show ?thesis using Cons.IH Cons.prems in_rows ne False by auto
  qed
qed

lemma qualifying_row_found:
  assumes "distinct (map col_role rows)"
      and "row \<in> set rows" and "col_role row = dsn" and "col_can_login row \<noteq> None"
  shows "(case filter (\<lambda>r. col_role r = dsn) rows of [] \<Rightarrow> False | r # _ \<Rightarrow> has_can_login r)"
  using filter_key_unique [OF assms(1,2)] assms(3,4) by (simp add: has_can_login_iff)

lemma no_qualifying_row:
  assumes "\<forall>row\<in>set rows. col_role row = dsn \<longrightarrow> col_can_login row = None"
  shows "\<not> (case filter (\<lambda>r. col_role r = dsn) rows of [] \<Rightarrow> False | r # _ \<Rightarrow> has_can_login r)"
proof (cases "filter (\<lambda>r. col_role r = dsn) rows")
  case Nil
  then show ?thesis by simp
next
  case (Cons r rs)
  then have "r \<in> set (filter (\<lambda>r. col_role r = dsn) rows)" by simp
  then have "r \<in> set rows" "col_role r = dsn" by simp_all
  then have "col_can_login r = None" using assms by blast
  then show ?thesis using Cons by (simp add: has_can_login_iff)
qed

lemma stored_value_iff:
  assumes "distinct (map (\<lambda>row. (col_attr_role row, col_attr_name row)) rows)"
  shows "(case filter (\<lambda>row. col_attr_role row = r \<and> col_attr_name row = a) rows of
            [] \<Rightarrow> None | row # _ \<Rightarrow> Some (col_attr_value row)) = Some v
         \<longleftrightarrow> (\<exists>row\<in>set rows. col_attr_role row = r \<and> col_attr_name row = a \<and> col_attr_value row = v)"
proof
  assume l: "(case filter (\<lambda>row. col_attr_role row = r \<and> col_attr_name row = a) rows of
            [] \<Rightarrow> None | row # _ \<Rightarrow> Some (col_attr_value row)) = Some v"
  then obtain row rest where f: "filter (\<lambda>row. col_attr_role row = r \<and> col_attr_name row = a) rows = row # rest"
    by (cases "filter (\<lambda>row. col_attr_role row = r \<and> col_attr_name row = a) rows") auto
  then have "row \<in> set (filter (\<lambda>row. col_attr_role row = r \<and> col_attr_name row = a) rows)" by simp
  then have "row \<in> set rows" "col_attr_role row = r" "col_attr_name row = a" by simp_all
  moreover have "col_attr_value row = v" using l f by simp
  ultimately show "\<exists>row\<in>set rows. col_attr_role row = r \<and> col_attr_name row = a \<and> col_attr_value row = v"
    by blast
next
  assume "\<exists>row\<in>set rows. col_attr_role row = r \<and> col_attr_name row = a \<and> col_attr_value row = v"
  then obtain row where row: "row \<in> set rows" "col_attr_role row = r" "col_attr_name row = a"
    "col_attr_value row = v" by blast
  have "filter (\<lambda>x. col_attr_role x = r \<and> col_attr_name x = a) rows = [row]"
    using filter_attr_key_unique [OF assms row(1)] row(2,3) by simp
  then show "(case filter (\<lambda>row. col_attr_role row = r \<and> col_attr_name row = a) rows of
            [] \<Rightarrow> None | row # _ \<Rightarrow> Some (col_attr_value row)) = Some v"
    using row(4) by simp
qed

lemma set_role_set_insert: "set (role_set_insert x roles) = insert x (set roles)"
  by (auto simp: role_set_insert_def)

lemma set_foldl_role_set_insert:
  "set (foldl (\<lambda>acc x. role_set_insert x acc) roles xs) = set roles \<union> set xs"
  by (induction xs arbitrary: roles) (auto simp: role_set_insert_def)

lemma distinct_foldl_role_set_insert:
  "distinct roles \<Longrightarrow> distinct (foldl (\<lambda>acc x. role_set_insert x acc) roles xs)"
  by (induction xs arbitrary: roles) (auto simp: role_set_insert_def)

lemma distinct_role_set_insert: "distinct roles \<Longrightarrow> distinct (role_set_insert x roles)"
  by (simp add: role_set_insert_def)

lemma distinct_query_all_row: "distinct roles \<Longrightarrow> distinct (query_all_row roles row)"
  by (simp add: query_all_row_def Let_def distinct_role_set_insert distinct_foldl_role_set_insert
      split: option.splits)

lemma distinct_foldl_query_all_row:
  "distinct acc \<Longrightarrow> distinct (foldl query_all_row acc rows)"
  by (induction rows arbitrary: acc) (simp_all add: distinct_query_all_row)

lemma set_foldl_query_all_row:
  "set (foldl query_all_row acc rows) = set acc \<union> (\<Union>row\<in>set rows. insert (col_role row) (members row))"
proof (induction rows arbitrary: acc)
  case Nil
  then show ?case by simp
next
  case (Cons row rows)
  have "set (query_all_row acc row) = set acc \<union> insert (col_role row) (members row)"
    by (auto simp: query_all_row_def Let_def set_foldl_role_set_insert members_def
        set_role_set_insert split: option.splits)
  then show ?case using Cons.IH [of "query_all_row acc row"] by auto
qed

lemma fetch_attributes_result:
  "available qp None \<Longrightarrow>
   fst (fetch_attributes a roles acc qp) =
     Inr (\<lambda>r. if acc r \<noteq> None then acc r
              else if r \<in> set roles
              then (case filter (\<lambda>row. col_attr_role row = r \<and> col_attr_name row = a) (role_attributes_rows qp) of
                      [] \<Rightarrow> None | row # _ \<Rightarrow> Some (col_attr_value row))
              else None)"
proof (induction roles arbitrary: acc qp)
  case Nil
  then show ?case by (auto simp: make_ready_future_def)
next
  case (Cons role roles)
  let ?qp' = "qp\<lparr>issued := issued qp @ [Executed (SELECT_attribute role a) None]\<rparr>"
  have av': "available ?qp' None" using Cons.prems by simp
  show ?case
    using Cons.prems Cons.IH [OF av']
    by (auto simp: get_attribute_apply emplace_def split: list.splits option.splits intro!: ext)
qed

section \<open>Interleaved coordinators\<close>

lemma coordinator_step_checking:
  "coordinator_step dsn Checking qp =
     ((if \<not> available qp (Some QUORUM) then Finished (Inl unavailable_exception)
       else if default_row_has_can_login dsn (roles_rows qp) then Finished (Inr ())
       else Inserting),
      qp\<lparr>issued := issued qp @ [Executed (SELECT_role dsn) (Some QUORUM)]\<rparr>)"
  by (simp add: default_role_row_satisfies_apply default_row_has_can_login_def)

lemma coordinator_step_inserting:
  "coordinator_step dsn Inserting qp =
     (if available qp (Some QUORUM)
      then (Finished (Inr ()),
            qp\<lparr>roles_rows := upsert_role dsn True True (roles_rows qp),
               issued := issued qp @ [Executed (INSERT_role dsn True True) (Some QUORUM)]\<rparr>)
      else (Finished (Inl unavailable_exception),
            qp\<lparr>issued := issued qp @ [Executed (INSERT_role dsn True True) (Some QUORUM)]\<rparr>))"
  by (simp add: insert_role_apply)





lemma step_keeps_availability:
  "available (snd (coordinator_step dsn c qp)) = available qp"
  by (cases c)
    (simp_all add: coordinator_step_checking coordinator_step_inserting
      del: coordinator_step.simps(1,2))












section \<open>Bootstrap of the default role\<close>

text \<open>
  C1. On the execution context that does the work, \<^verbatim>\<open>start\<close> ensures the two tables, in
  whichever order they reach the store, succeeds, and leaves in \<^verbatim>\<open>_stopped\<close> the task
  handed to \<^verbatim>\<open>do_after_system_ready\<close>; that task waits for schema agreement and only
  then takes the default-role step. With the roles table keyed by role name and quorum
  served, the step reads the row of the default role. When a row of the default role whose
  \<^verbatim>\<open>can_login\<close> cell holds a value is there, the read is all it issues: no write. When
  there is none, it issues after the read the insert of the default role with
  \<^verbatim>\<open>is_superuser\<close> and \<^verbatim>\<open>can_login\<close> both true, at \<open>QUORUM\<close>, and the table then holds
  that row. The step succeeds, and taken again on the state it left it issues the read
  alone: the second run writes nothing.
\<close>

theorem bootstrap_default_role:
  assumes pk: "primary_key qp" and av: "available qp (Some QUORUM)"
  shows
    "start dsn do_after_system_ready True roles_first m =
       (Inr (), m\<lparr>m_qp := (m_qp m)\<lparr>issued := issued (m_qp m) @
                     (if roles_first then [Table_ensured roles_table, Table_ensured role_attributes_table]
                      else [Table_ensured role_attributes_table, Table_ensured roles_table])\<rparr>,
                   m_stopped := do_after_system_ready (default_role_task dsn)\<rparr>)
     \<and> default_role_task dsn qp =
         create_default_role_if_missing dsn (qp\<lparr>issued := issued qp @ [Schema_agreed]\<rparr>)
     \<and> ((\<exists>row\<in>set (roles_rows qp). col_role row = dsn \<and> col_can_login row \<noteq> None) \<longrightarrow>
          create_default_role_if_missing dsn qp =
            (Inr (), qp\<lparr>issued := issued qp @ [Executed (SELECT_role dsn) (Some QUORUM)]\<rparr>))
     \<and> ((\<forall>row\<in>set (roles_rows qp). col_role row = dsn \<longrightarrow> col_can_login row = None) \<longrightarrow>
          create_default_role_if_missing dsn qp =
            (Inr (), qp\<lparr>roles_rows := upsert_role dsn True True (roles_rows qp),
                         issued := issued qp @ [Executed (SELECT_role dsn) (Some QUORUM),
                                                Executed (INSERT_role dsn True True) (Some QUORUM)]\<rparr>)
          \<and> (\<exists>row\<in>set (upsert_role dsn True True (roles_rows qp)).
                col_role row = dsn \<and> col_is_superuser row = Some True \<and> col_can_login row = Some True))
     \<and> (fst (create_default_role_if_missing dsn qp) = Inr ()
        \<and> create_default_role_if_missing dsn (snd (create_default_role_if_missing dsn qp)) =
            (Inr (), (snd (create_default_role_if_missing dsn qp))
                       \<lparr>issued := issued (snd (create_default_role_if_missing dsn qp))
                                   @ [Executed (SELECT_role dsn) (Some QUORUM)]\<rparr>))"
proof -
  let ?found = "\<exists>row\<in>set (roles_rows qp). col_role row = dsn \<and> col_can_login row \<noteq> None"
  let ?check = "\<lambda>rows. case filter (\<lambda>r. col_role r = dsn) rows of [] \<Rightarrow> False | r # _ \<Rightarrow> has_can_login r"
  have d: "distinct (map col_role (roles_rows qp))" using pk by (simp add: primary_key_def)
  have hit: "?found \<Longrightarrow> ?check (roles_rows qp)"
    using qualifying_row_found [OF d] by blast
  have after: "?check (upsert_role dsn True True (roles_rows qp))"
  proof -
    obtain row where "row \<in> set (upsert_role dsn True True (roles_rows qp))"
      "col_role row = dsn" "col_can_login row = Some True"
      using upsert_role_written [of dsn True True "roles_rows qp"] by blast
    then show ?thesis
      using qualifying_row_found [OF upsert_role_distinct [OF d, of dsn True True], of row dsn]
      by simp
  qed
  have first: "start dsn do_after_system_ready True roles_first m =
       (Inr (), m\<lparr>m_qp := (m_qp m)\<lparr>issued := issued (m_qp m) @
                     (if roles_first then [Table_ensured roles_table, Table_ensured role_attributes_table]
                      else [Table_ensured role_attributes_table, Table_ensured roles_table])\<rparr>,
                   m_stopped := do_after_system_ready (default_role_task dsn)\<rparr>)
     \<and> default_role_task dsn qp =
         create_default_role_if_missing dsn (qp\<lparr>issued := issued qp @ [Schema_agreed]\<rparr>)"
    using start_apply [of dsn do_after_system_ready roles_first m] default_role_task_apply [of dsn qp]
    by (rule conjI)
  have second: "?found \<longrightarrow> create_default_role_if_missing dsn qp =
      (Inr (), qp\<lparr>issued := issued qp @ [Executed (SELECT_role dsn) (Some QUORUM)]\<rparr>)"
    using av hit by (simp add: create_default_role_if_missing_apply)
  have third: "(\<forall>row\<in>set (roles_rows qp). col_role row = dsn \<longrightarrow> col_can_login row = None) \<longrightarrow>
      create_default_role_if_missing dsn qp =
        (Inr (), qp\<lparr>roles_rows := upsert_role dsn True True (roles_rows qp),
                     issued := issued qp @ [Executed (SELECT_role dsn) (Some QUORUM),
                                            Executed (INSERT_role dsn True True) (Some QUORUM)]\<rparr>)
      \<and> (\<exists>row\<in>set (upsert_role dsn True True (roles_rows qp)).
            col_role row = dsn \<and> col_is_superuser row = Some True \<and> col_can_login row = Some True)"
    using av no_qualifying_row [of "roles_rows qp" dsn] upsert_role_written [of dsn True True "roles_rows qp"]
    by (simp add: create_default_role_if_missing_apply)
  have fourth: "fst (create_default_role_if_missing dsn qp) = Inr ()
     \<and> create_default_role_if_missing dsn (snd (create_default_role_if_missing dsn qp)) =
         (Inr (), (snd (create_default_role_if_missing dsn qp))
                    \<lparr>issued := issued (snd (create_default_role_if_missing dsn qp))
                                @ [Executed (SELECT_role dsn) (Some QUORUM)]\<rparr>)"
  proof (cases "?check (roles_rows qp)")
    case True
    then show ?thesis using av by (simp add: create_default_role_if_missing_apply)
  next
    case False
    then show ?thesis using av after by (simp add: create_default_role_if_missing_apply)
  qed
  from first second third fourth show ?thesis by blast
qed

theorem bootstrap_default_role_witness:
  "primary_key empty_store \<and> available empty_store (Some QUORUM)
   \<and> create_default_role_if_missing ''cassandra'' empty_store =
       (Inr (), empty_store
          \<lparr>roles_rows := [\<lparr>col_role = ''cassandra'', col_is_superuser = Some True,
                           col_can_login = Some True, col_member_of = None\<rparr>],
           issued := [Executed (SELECT_role ''cassandra'') (Some QUORUM),
                      Executed (INSERT_role ''cassandra'' True True) (Some QUORUM)]\<rparr>)
   \<and> issued (snd (create_default_role_if_missing ''cassandra''
                     (snd (create_default_role_if_missing ''cassandra'' empty_store)))) =
       [Executed (SELECT_role ''cassandra'') (Some QUORUM),
        Executed (INSERT_role ''cassandra'' True True) (Some QUORUM),
        Executed (SELECT_role ''cassandra'') (Some QUORUM)]
   \<and> primary_key sample_store \<and> available sample_store (Some QUORUM)
   \<and> row_B \<in> set (roles_rows sample_store) \<and> col_role row_B = ''B''
   \<and> col_can_login row_B = Some False
   \<and> create_default_role_if_missing ''B'' sample_store =
       (Inr (), sample_store\<lparr>issued := [Executed (SELECT_role ''B'') (Some QUORUM)]\<rparr>)
   \<and> fst (start ''cassandra'' (\<lambda>task. task) True False
             \<lparr>m_qp = empty_store, m_stopped = make_ready_future ()\<rparr>) = Inr ()
   \<and> issued (m_qp (snd (start ''cassandra'' (\<lambda>task. task) True False
             \<lparr>m_qp = empty_store, m_stopped = make_ready_future ()\<rparr>))) =
       [Table_ensured role_attributes_table, Table_ensured roles_table]
   \<and> issued (snd (m_stopped (snd (start ''cassandra'' (\<lambda>task. task) True False
             \<lparr>m_qp = empty_store, m_stopped = make_ready_future ()\<rparr>)) empty_store)) =
       [Schema_agreed,
        Executed (SELECT_role ''cassandra'') (Some QUORUM),
        Executed (INSERT_role ''cassandra'' True True) (Some QUORUM)]"
proof -
  have pk: "primary_key empty_store" by (simp add: primary_key_def empty_store_def)
  have av: "available empty_store (Some QUORUM)" by (simp add: empty_store_def)
  have none: "\<forall>row\<in>set (roles_rows empty_store). col_role row = ''cassandra'' \<longrightarrow> col_can_login row = None"
    by (simp add: empty_store_def)
  have rows: "roles_rows empty_store = []" by (simp add: empty_store_def)
  have tr: "issued empty_store = []" by (simp add: empty_store_def)
  note facts = bootstrap_default_role [OF pk av, of "''cassandra''" "\<lambda>task. task" False
      "\<lparr>m_qp = empty_store, m_stopped = make_ready_future ()\<rparr>"]
  have started: "start ''cassandra'' (\<lambda>task. task) True False
             \<lparr>m_qp = empty_store, m_stopped = make_ready_future ()\<rparr> =
       (Inr (), \<lparr>m_qp = empty_store, m_stopped = make_ready_future ()\<rparr>
          \<lparr>m_qp := (m_qp \<lparr>m_qp = empty_store, m_stopped = make_ready_future ()\<rparr>)
                    \<lparr>issued := issued (m_qp \<lparr>m_qp = empty_store, m_stopped = make_ready_future ()\<rparr>) @
                       (if False then [Table_ensured roles_table, Table_ensured role_attributes_table]
                        else [Table_ensured role_attributes_table, Table_ensured roles_table])\<rparr>,
            m_stopped := (\<lambda>task. task) (default_role_task ''cassandra'')\<rparr>)"
    and task: "default_role_task ''cassandra'' empty_store =
         create_default_role_if_missing ''cassandra'' (empty_store\<lparr>issued := issued empty_store @ [Schema_agreed]\<rparr>)"
    using facts by blast+
  have s1: "fst (start ''cassandra'' (\<lambda>task. task) True False
             \<lparr>m_qp = empty_store, m_stopped = make_ready_future ()\<rparr>) = Inr ()"
    using started by simp
  have s2: "issued (m_qp (snd (start ''cassandra'' (\<lambda>task. task) True False
             \<lparr>m_qp = empty_store, m_stopped = make_ready_future ()\<rparr>))) =
       [Table_ensured role_attributes_table, Table_ensured roles_table]"
    using started tr by simp
  have "m_stopped (snd (start ''cassandra'' (\<lambda>task. task) True False
             \<lparr>m_qp = empty_store, m_stopped = make_ready_future ()\<rparr>)) =
        default_role_task ''cassandra''"
    using started by simp
  then have s3: "issued (snd (m_stopped (snd (start ''cassandra'' (\<lambda>task. task) True False
             \<lparr>m_qp = empty_store, m_stopped = make_ready_future ()\<rparr>)) empty_store)) =
       [Schema_agreed,
        Executed (SELECT_role ''cassandra'') (Some QUORUM),
        Executed (INSERT_role ''cassandra'' True True) (Some QUORUM)]"
    using task by (simp add: create_default_role_if_missing_apply empty_store_def)
  from facts none
  have run: "create_default_role_if_missing ''cassandra'' empty_store =
      (Inr (), empty_store\<lparr>roles_rows := upsert_role ''cassandra'' True True (roles_rows empty_store),
                 issued := issued empty_store @ [Executed (SELECT_role ''cassandra'') (Some QUORUM),
                                                 Executed (INSERT_role ''cassandra'' True True) (Some QUORUM)]\<rparr>)"
    and again: "create_default_role_if_missing ''cassandra''
                  (snd (create_default_role_if_missing ''cassandra'' empty_store)) =
      (Inr (), (snd (create_default_role_if_missing ''cassandra'' empty_store))
                 \<lparr>issued := issued (snd (create_default_role_if_missing ''cassandra'' empty_store))
                             @ [Executed (SELECT_role ''cassandra'') (Some QUORUM)]\<rparr>)"
    by blast+
  have pk': "primary_key sample_store"
    by (simp add: primary_key_def sample_store_def row_A_def row_B_def)
  have av': "available sample_store (Some QUORUM)" by (simp add: sample_store_def)
  have rowB: "row_B \<in> set (roles_rows sample_store)" "col_role row_B = ''B''"
    "col_can_login row_B = Some False"
    by (simp_all add: sample_store_def row_B_def)
  then have "\<exists>row\<in>set (roles_rows sample_store). col_role row = ''B'' \<and> col_can_login row \<noteq> None"
    by (intro bexI [of _ row_B]) simp_all
  with bootstrap_default_role [OF pk' av', of "''B''" "\<lambda>task. task" False
      "\<lparr>m_qp = empty_store, m_stopped = make_ready_future ()\<rparr>"]
  have "create_default_role_if_missing ''B'' sample_store =
      (Inr (), sample_store\<lparr>issued := issued sample_store @ [Executed (SELECT_role ''B'') (Some QUORUM)]\<rparr>)"
    by blast
  then have kept: "create_default_role_if_missing ''B'' sample_store =
      (Inr (), sample_store\<lparr>issued := [Executed (SELECT_role ''B'') (Some QUORUM)]\<rparr>)"
    by (simp add: sample_store_def)
  have first: "create_default_role_if_missing ''cassandra'' empty_store =
       (Inr (), empty_store
          \<lparr>roles_rows := [\<lparr>col_role = ''cassandra'', col_is_superuser = Some True,
                           col_can_login = Some True, col_member_of = None\<rparr>],
           issued := [Executed (SELECT_role ''cassandra'') (Some QUORUM),
                      Executed (INSERT_role ''cassandra'' True True) (Some QUORUM)]\<rparr>)"
    using run rows tr by simp
  have second: "issued (snd (create_default_role_if_missing ''cassandra''
                     (snd (create_default_role_if_missing ''cassandra'' empty_store)))) =
       [Executed (SELECT_role ''cassandra'') (Some QUORUM),
        Executed (INSERT_role ''cassandra'' True True) (Some QUORUM),
        Executed (SELECT_role ''cassandra'') (Some QUORUM)]"
    using again first by simp
  show ?thesis
    using pk av first second pk' av' rowB kept s1 s2 s3 by (intro conjI)
qed

section \<open>Two coordinators racing\<close>




section \<open>Consistency level per statement\<close>

text \<open>
  C2, as the code has it. A lookup of one role (\<^verbatim>\<open>find_record\<close>, and through it
  \<^verbatim>\<open>query_granted\<close>, \<^verbatim>\<open>is_superuser\<close> and \<^verbatim>\<open>can_login\<close>) and an upsert of one role
  (\<^verbatim>\<open>create_or_replace\<close>, \<^verbatim>\<open>create\<close>) issue exactly one statement, at \<open>QUORUM\<close> when the
  role is the default superuser and at \<open>LOCAL_ONE\<close> for every other role. The scan of
  \<^verbatim>\<open>query_all\<close>, which reads the rows of all roles, is issued at \<open>QUORUM\<close>.
\<close>

theorem point_access_consistency:
  "issued (snd (find_record dsn r qp)) =
     issued qp @ [Executed (SELECT_role r) (Some (if r = dsn then QUORUM else LOCAL_ONE))]
   \<and> issued (snd (query_granted dsn r m qp)) =
     issued qp @ [Executed (SELECT_role r) (Some (if r = dsn then QUORUM else LOCAL_ONE))]
   \<and> issued (snd (is_superuser_role dsn r qp)) =
     issued qp @ [Executed (SELECT_role r) (Some (if r = dsn then QUORUM else LOCAL_ONE))]
   \<and> issued (snd (can_login_role dsn r qp)) =
     issued qp @ [Executed (SELECT_role r) (Some (if r = dsn then QUORUM else LOCAL_ONE))]
   \<and> issued (snd (create_or_replace dsn r c qp)) =
     issued qp @ [Executed (INSERT_role r (cfg_is_superuser c) (cfg_can_login c))
                    (Some (if r = dsn then QUORUM else LOCAL_ONE))]
   \<and> issued (snd (create dsn r c qp)) =
     issued qp @ [Executed (INSERT_role r (cfg_is_superuser c) (cfg_can_login c))
                    (Some (if r = dsn then QUORUM else LOCAL_ONE))]
   \<and> issued (snd (query_all qp)) = issued qp @ [Executed SELECT_all_roles (Some QUORUM)]"
  by (simp add: find_record_apply query_granted_apply is_superuser_role_def can_login_role_def
      then_future_def make_ready_future_def create_def create_or_replace_def insert_role_apply
      query_all_apply consistency_for_role_def)

theorem point_access_consistency_witness:
  "issued (snd (find_record ''cassandra'' ''cassandra'' sample_store)) =
     [Executed (SELECT_role ''cassandra'') (Some QUORUM)]
   \<and> issued (snd (find_record ''cassandra'' ''A'' sample_store)) =
     [Executed (SELECT_role ''A'') (Some LOCAL_ONE)]
   \<and> issued (snd (create ''cassandra'' ''A'' \<lparr>cfg_is_superuser = False, cfg_can_login = True\<rparr> sample_store)) =
     [Executed (INSERT_role ''A'' False True) (Some LOCAL_ONE)]"
  using point_access_consistency [of "''cassandra''" "''cassandra''" sample_store]
        point_access_consistency [of "''cassandra''" "''A''" sample_store yes
                                     "\<lparr>cfg_is_superuser = False, cfg_can_login = True\<rparr>"]
  by (simp add: sample_store_def)

text \<open>
  The sentence of C2 about every other role fails on the scan: in the sample store
  \<^verbatim>\<open>query_all\<close> issues one statement, at \<open>QUORUM\<close>, and what it returns comes from the rows
  of \<open>A\<close> and \<open>B\<close>, neither of which is the default superuser \<open>cassandra\<close>, whose
  level by \<^verbatim>\<open>consistency_for_role\<close> is \<open>LOCAL_ONE\<close>.
\<close>

theorem scan_reads_other_roles_at_quorum:
  "query_all sample_store =
     (Inr [''A'', ''B'', ''C''], sample_store\<lparr>issued := [Executed SELECT_all_roles (Some QUORUM)]\<rparr>)
   \<and> roles_rows sample_store = [row_A, row_B]
   \<and> col_role row_A = ''A''
   \<and> consistency_for_role ''cassandra'' ''A'' = LOCAL_ONE
   \<and> QUORUM \<noteq> LOCAL_ONE"
  by (simp add: query_all_apply sample_store_def row_A_def row_B_def query_all_row_def
      role_set_insert_def consistency_for_role_def)

section \<open>Granted roles\<close>

text \<open>
  C3. With the roles table keyed by role name and the lookup of \<open>g\<close> served: when \<open>g\<close>
  has a row, \<^verbatim>\<open>query_granted\<close> returns, whatever the query mode \<open>m\<close>, a role set whose
  elements are exactly \<open>g\<close> and the names in the \<^verbatim>\<open>member_of\<close> cell of that row, so that
  no name reached only through the memberships of another role is in it; when \<open>g\<close> has no
  row, it fails with \<^verbatim>\<open>nonexistant_role\<close> of \<open>g\<close>.
\<close>

theorem query_granted_direct_memberships:
  assumes "primary_key qp"
      and "available qp (Some (consistency_for_role dsn g))"
  shows "(\<forall>row\<in>set (roles_rows qp). col_role row = g \<longrightarrow>
            (\<exists>roles. fst (query_granted dsn g m qp) = Inr roles \<and> distinct roles
                \<and> set roles = insert g (members row)))
       \<and> ((\<forall>row\<in>set (roles_rows qp). col_role row \<noteq> g) \<longrightarrow>
            fst (query_granted dsn g m qp) = Inl (nonexistant_role g))"
proof (intro conjI ballI impI)
  fix row
  assume row: "row \<in> set (roles_rows qp)" and key: "col_role row = g"
  have "filter (\<lambda>r. col_role r = g) (roles_rows qp) = [row]"
    using filter_key_unique [of "roles_rows qp" row] assms(1) row key
    by (simp add: primary_key_def)
  then show "\<exists>roles. fst (query_granted dsn g m qp) = Inr roles \<and> distinct roles
      \<and> set roles = insert g (members row)"
    using assms(2)
    by (auto simp: query_granted_apply set_foldl_role_set_insert distinct_foldl_role_set_insert
        members_def split: option.splits)
next
  assume "\<forall>row\<in>set (roles_rows qp). col_role row \<noteq> g"
  then have "filter (\<lambda>r. col_role r = g) (roles_rows qp) = []"
    by (rule filter_key_absent)
  then show "fst (query_granted dsn g m qp) = Inl (nonexistant_role g)"
    using assms(2) by (simp add: query_granted_apply)
qed

theorem query_granted_direct_memberships_witness:
  "primary_key sample_store
   \<and> available sample_store (Some (consistency_for_role ''cassandra'' ''A''))
   \<and> row_A \<in> set (roles_rows sample_store) \<and> col_role row_A = ''A''
   \<and> (\<exists>roles. fst (query_granted ''cassandra'' ''A'' yes sample_store) = Inr roles
          \<and> set roles = {''A'', ''B''} \<and> ''C'' \<notin> set roles)
   \<and> map col_role (roles_rows sample_store) = [''A'', ''B'']
   \<and> fst (query_granted ''cassandra'' ''Z'' no sample_store) = Inl (nonexistant_role ''Z'')"
proof -
  have pk: "primary_key sample_store"
    by (simp add: primary_key_def sample_store_def row_A_def row_B_def)
  have avA: "available sample_store (Some (consistency_for_role ''cassandra'' ''A''))"
    by (simp add: sample_store_def)
  have avZ: "available sample_store (Some (consistency_for_role ''cassandra'' ''Z''))"
    by (simp add: sample_store_def)
  have rowA: "row_A \<in> set (roles_rows sample_store)" "col_role row_A = ''A''"
    by (simp_all add: sample_store_def row_A_def)
  have noZ: "\<forall>row\<in>set (roles_rows sample_store). col_role row \<noteq> ''Z''"
    by (simp add: sample_store_def row_A_def row_B_def)
  have mem: "members row_A = {''B''}" by (simp add: members_def row_A_def)
  have "\<exists>roles. fst (query_granted ''cassandra'' ''A'' yes sample_store) = Inr roles
          \<and> distinct roles \<and> set roles = insert ''A'' (members row_A)"
    using conjunct1 [OF query_granted_direct_memberships [OF pk avA, of yes]] rowA by blast
  then obtain roles where res: "fst (query_granted ''cassandra'' ''A'' yes sample_store) = Inr roles"
    and els: "set roles = insert ''A'' (members row_A)"
    by blast
  have els': "set roles = {''A'', ''B''}" using els mem by simp
  then have "''C'' \<notin> set roles" by simp
  with res els'
  have a: "\<exists>roles. fst (query_granted ''cassandra'' ''A'' yes sample_store) = Inr roles
          \<and> set roles = {''A'', ''B''} \<and> ''C'' \<notin> set roles"
    by blast
  have z: "fst (query_granted ''cassandra'' ''Z'' no sample_store) = Inl (nonexistant_role ''Z'')"
    using conjunct2 [OF query_granted_direct_memberships [OF pk avZ, of no]] noZ by (rule mp)
  have keys: "map col_role (roles_rows sample_store) = [''A'', ''B'']"
    by (simp add: sample_store_def row_A_def row_B_def)
  show ?thesis
    using pk avA rowA a keys z by (intro conjI)
qed

section \<open>Existence check\<close>

text \<open>
  C5. For every role name, also one that was never written to the store, and in every
  state of the store, \<^verbatim>\<open>exists\<close> answers true; it asks the store nothing.
\<close>

theorem exists_always_true:
  "exists_role role_name qp = (Inr True, qp)"
  by (simp add: exists_role_def make_ready_future_def)

theorem exists_always_true_witness:
  "exists_role ''never written'' empty_store = (Inr True, empty_store)"
  using exists_always_true [of "''never written''" empty_store] by simp

section \<open>All roles\<close>

text \<open>
  C6. \<^verbatim>\<open>query_all\<close> issues one statement, the scan of the roles table at \<open>QUORUM\<close>. When
  quorum is served it returns a role set whose elements are, over all rows of the table,
  the role name of the row and every name in its \<^verbatim>\<open>member_of\<close> cell, whether or not that
  name has a row of its own.
\<close>

theorem query_all_names:
  assumes "available qp (Some QUORUM)"
  shows "\<exists>roles. query_all qp =
            (Inr roles, qp\<lparr>issued := issued qp @ [Executed SELECT_all_roles (Some QUORUM)]\<rparr>)
          \<and> distinct roles
          \<and> set roles = (\<Union>row\<in>set (roles_rows qp). insert (col_role row) (members row))"
  using assms by (simp add: query_all_apply set_foldl_query_all_row distinct_foldl_query_all_row)

theorem query_all_names_witness:
  "available sample_store (Some QUORUM)
   \<and> map col_role (roles_rows sample_store) = [''A'', ''B'']
   \<and> (\<exists>roles. query_all sample_store =
          (Inr roles, sample_store\<lparr>issued := issued sample_store @ [Executed SELECT_all_roles (Some QUORUM)]\<rparr>)
        \<and> distinct roles \<and> set roles = {''A'', ''B'', ''C''})"
proof -
  have av: "available sample_store (Some QUORUM)" by (simp add: sample_store_def)
  have keys: "map col_role (roles_rows sample_store) = [''A'', ''B'']"
    by (simp add: sample_store_def row_A_def row_B_def)
  have names: "(\<Union>row\<in>set (roles_rows sample_store). insert (col_role row) (members row)) =
      {''A'', ''B'', ''C''}"
    by (auto simp: sample_store_def row_A_def row_B_def members_def)
  from query_all_names [OF av] names av keys show ?thesis by simp
qed

section \<open>One attribute of all roles\<close>

text \<open>
  C7. With the attributes table keyed by role and attribute name, and both the scan and
  the attribute lookups served, \<^verbatim>\<open>query_attribute_for_all\<close> of an attribute \<open>a\<close> returns
  a map \<open>m\<close> such that \<open>m r = Some v\<close> exactly when \<open>r\<close> is one of the names that
  \<^verbatim>\<open>query_all\<close> returns (a name without a row of its own included) and the attributes table
  stores \<open>v\<close> for \<open>r\<close> and \<open>a\<close>; a name with no stored value is not in the map.
\<close>

theorem query_attribute_for_all_map:
  assumes "attribute_primary_key qp"
      and "available qp (Some QUORUM)" and "available qp None"
  shows "\<exists>roles m. fst (query_all qp) = Inr roles
          \<and> fst (query_attribute_for_all a qp) = Inr m
          \<and> (\<forall>r v. m r = Some v \<longleftrightarrow>
                r \<in> set roles \<and>
                (\<exists>row\<in>set (role_attributes_rows qp).
                   col_attr_role row = r \<and> col_attr_name row = a \<and> col_attr_value row = v))"
proof -
  let ?roles = "foldl query_all_row [] (roles_rows qp)"
  let ?qp' = "qp\<lparr>issued := issued qp @ [Executed SELECT_all_roles (Some QUORUM)]\<rparr>"
  let ?m = "\<lambda>r. if r \<in> set ?roles
              then (case filter (\<lambda>row. col_attr_role row = r \<and> col_attr_name row = a) (role_attributes_rows qp) of
                      [] \<Rightarrow> None | row # _ \<Rightarrow> Some (col_attr_value row))
              else None"
  have d: "distinct (map (\<lambda>row. (col_attr_role row, col_attr_name row)) (role_attributes_rows qp))"
    using assms(1) by (simp add: attribute_primary_key_def)
  have all: "fst (query_all qp) = Inr ?roles"
    using assms(2) by (simp add: query_all_apply)
  have av': "available ?qp' None" using assms(3) by simp
  have "query_attribute_for_all a qp = fetch_attributes a ?roles Map.empty ?qp'"
    using assms(2) by (simp add: query_attribute_for_all_def then_future_def query_all_apply)
  then have res: "fst (query_attribute_for_all a qp) = Inr ?m"
    using fetch_attributes_result [OF av', of a ?roles Map.empty] by (simp cong: if_cong)
  have "\<forall>r v. ?m r = Some v \<longleftrightarrow>
          r \<in> set ?roles \<and>
          (\<exists>row\<in>set (role_attributes_rows qp).
             col_attr_role row = r \<and> col_attr_name row = a \<and> col_attr_value row = v)"
    using stored_value_iff [OF d] by simp
  with all res show ?thesis by blast
qed

theorem query_attribute_for_all_map_witness:
  "attribute_primary_key sample_store
   \<and> available sample_store (Some QUORUM) \<and> available sample_store None
   \<and> fst (query_attribute_for_all ''X'' sample_store) = Inr [''A'' \<mapsto> ''1'', ''C'' \<mapsto> ''3'']"
proof -
  have apk: "attribute_primary_key sample_store"
    by (simp add: attribute_primary_key_def sample_store_def)
  have avq: "available sample_store (Some QUORUM)" by (simp add: sample_store_def)
  have avn: "available sample_store None" by (simp add: sample_store_def)
  have roles: "fst (query_all sample_store) = Inr [''A'', ''B'', ''C'']"
    by (simp add: query_all_apply sample_store_def row_A_def row_B_def query_all_row_def
        role_set_insert_def)
  from query_attribute_for_all_map [OF apk avq avn, of "''X''"] roles
  obtain m where m: "fst (query_attribute_for_all ''X'' sample_store) = Inr m"
    and spec: "\<forall>r v. m r = Some v \<longleftrightarrow>
                r \<in> set [''A'', ''B'', ''C''] \<and>
                (\<exists>row\<in>set (role_attributes_rows sample_store).
                   col_attr_role row = r \<and> col_attr_name row = ''X'' \<and> col_attr_value row = v)"
    by auto
  have "m r = [''A'' \<mapsto> ''1'', ''C'' \<mapsto> ''3''] r" for r
  proof (cases "m r")
    case None
    have "[''A'' \<mapsto> ''1'', ''C'' \<mapsto> ''3''] r = Some v \<Longrightarrow> m r = Some v" for v
      using spec by (auto simp: sample_store_def split: if_splits)
    then show ?thesis using None by (cases "[''A'' \<mapsto> ''1'', ''C'' \<mapsto> ''3''] r") auto
  next
    case (Some v)
    then have "r \<in> set [''A'', ''B'', ''C''] \<and>
                (\<exists>row\<in>set (role_attributes_rows sample_store).
                   col_attr_role row = r \<and> col_attr_name row = ''X'' \<and> col_attr_value row = v)"
      using spec by blast
    then have "[''A'' \<mapsto> ''1'', ''C'' \<mapsto> ''3''] r = Some v"
      by (auto simp: sample_store_def)
    then show ?thesis using Some by simp
  qed
  then have "m = [''A'' \<mapsto> ''1'', ''C'' \<mapsto> ''3'']" by (rule ext)
  then show ?thesis using apk avq avn m by simp
qed

section \<open>Role lifecycle\<close>

text \<open>
  C8. For every input and in every state, \<^verbatim>\<open>drop\<close>, \<^verbatim>\<open>grant\<close> and \<^verbatim>\<open>revoke\<close> fail with
  the logic error "Not Implemented" and leave the query processor as it was: no statement
  is issued and no table changes.
\<close>

theorem lifecycle_operations_unimplemented:
  "drop_role role_name qp = (Inl (logic_error ''Not Implemented''), qp)
   \<and> grant grantee_name role_name qp = (Inl (logic_error ''Not Implemented''), qp)
   \<and> revoke revokee_name role_name qp = (Inl (logic_error ''Not Implemented''), qp)"
  by (simp add: drop_role_def grant_def revoke_def make_exception_future_def)

theorem lifecycle_operations_unimplemented_witness:
  "drop_role ''A'' sample_store = (Inl (logic_error ''Not Implemented''), sample_store)
   \<and> grant ''B'' ''A'' sample_store = (Inl (logic_error ''Not Implemented''), sample_store)
   \<and> revoke ''C'' ''A'' sample_store = (Inl (logic_error ''Not Implemented''), sample_store)"
  using lifecycle_operations_unimplemented [of "''A''" sample_store "''B''" "''C''"]
  by simp

text \<open>
  C9. For every role name and every update, in every state, \<^verbatim>\<open>alter\<close> succeeds and
  leaves the query processor as it was, so that reading any record back gives what it gave
  before: \<^verbatim>\<open>is_superuser\<close>, \<^verbatim>\<open>can_login\<close> and \<^verbatim>\<open>member_of\<close> are unchanged.
\<close>

theorem alter_is_noop:
  "alter role_name u qp = (Inr (), qp)
   \<and> find_record dsn r (snd (alter role_name u qp)) = find_record dsn r qp"
  by (simp add: alter_def make_ready_future_def)

theorem alter_is_noop_witness:
  "alter ''A'' \<lparr>upd_is_superuser = Some True, upd_can_login = Some False\<rparr> sample_store =
     (Inr (), sample_store)
   \<and> fst (find_record ''cassandra'' ''A''
            (snd (alter ''A'' \<lparr>upd_is_superuser = Some True, upd_can_login = Some False\<rparr> sample_store))) =
     Inr (Some \<lparr>name = ''A'', is_superuser = False, can_login = True, member_of = [''B'']\<rparr>)"
  using alter_is_noop [of "''A''" "\<lparr>upd_is_superuser = Some True, upd_can_login = Some False\<rparr>"
                          sample_store "''cassandra''" "''A''"]
  by (simp add: find_record_apply sample_store_def row_A_def row_B_def get_or_def)

text \<open>
  C10. \<^verbatim>\<open>create\<close> is \<^verbatim>\<open>create_or_replace\<close>. With the roles table keyed by role name and
  the level of the role served, it succeeds whether or not the role has a row, issues the
  one insert, and leaves the attributes table alone. When the role has a row, that row gets
  its \<^verbatim>\<open>is_superuser\<close> and \<^verbatim>\<open>can_login\<close> cells overwritten and keeps its \<^verbatim>\<open>member_of\<close>,
  and every other row stays; when it has none, one row with a null \<^verbatim>\<open>member_of\<close> is added.
\<close>

theorem create_is_upsert:
  assumes "primary_key qp"
      and "available qp (Some (consistency_for_role dsn r))"
  shows "create dsn r c = create_or_replace dsn r c
     \<and> fst (create dsn r c qp) = Inr ()
     \<and> issued (snd (create dsn r c qp)) =
         issued qp @ [Executed (INSERT_role r (cfg_is_superuser c) (cfg_can_login c))
                        (Some (consistency_for_role dsn r))]
     \<and> role_attributes_rows (snd (create dsn r c qp)) = role_attributes_rows qp
     \<and> (\<forall>row\<in>set (roles_rows qp). col_role row = r \<longrightarrow>
          set (roles_rows (snd (create dsn r c qp))) =
            insert (row\<lparr>col_is_superuser := Some (cfg_is_superuser c),
                         col_can_login := Some (cfg_can_login c)\<rparr>)
              (set (roles_rows qp) - {row}))
     \<and> ((\<forall>row\<in>set (roles_rows qp). col_role row \<noteq> r) \<longrightarrow>
          roles_rows (snd (create dsn r c qp)) =
            roles_rows qp @ [\<lparr>col_role = r, col_is_superuser = Some (cfg_is_superuser c),
                              col_can_login = Some (cfg_can_login c), col_member_of = None\<rparr>])"
proof -
  have d: "distinct (map col_role (roles_rows qp))" using assms(1) by (simp add: primary_key_def)
  have same: "create dsn r c = create_or_replace dsn r c"
    by (simp add: create_def)
  have run: "create dsn r c qp =
      (Inr (), qp\<lparr>roles_rows := upsert_role r (cfg_is_superuser c) (cfg_can_login c) (roles_rows qp),
                   issued := issued qp @ [Executed (INSERT_role r (cfg_is_superuser c) (cfg_can_login c))
                                            (Some (consistency_for_role dsn r))]\<rparr>)"
    using assms(2) by (simp add: create_def create_or_replace_def insert_role_apply)
  have present: "\<forall>row\<in>set (roles_rows qp). col_role row = r \<longrightarrow>
      set (roles_rows (snd (create dsn r c qp))) =
        insert (row\<lparr>col_is_superuser := Some (cfg_is_superuser c),
                     col_can_login := Some (cfg_can_login c)\<rparr>)
          (set (roles_rows qp) - {row})"
    using upsert_role_present [OF d] run by simp
  have absent: "(\<forall>row\<in>set (roles_rows qp). col_role row \<noteq> r) \<longrightarrow>
      roles_rows (snd (create dsn r c qp)) =
        roles_rows qp @ [\<lparr>col_role = r, col_is_superuser = Some (cfg_is_superuser c),
                          col_can_login = Some (cfg_can_login c), col_member_of = None\<rparr>]"
    using upsert_role_absent [of "roles_rows qp" r] run by simp
  have ok: "fst (create dsn r c qp) = Inr ()" using run by simp
  have trace: "issued (snd (create dsn r c qp)) =
      issued qp @ [Executed (INSERT_role r (cfg_is_superuser c) (cfg_can_login c))
                     (Some (consistency_for_role dsn r))]"
    using run by simp
  have attrs: "role_attributes_rows (snd (create dsn r c qp)) = role_attributes_rows qp"
    using run by simp
  from same ok trace attrs present absent show ?thesis by blast
qed

theorem create_is_upsert_witness:
  "primary_key sample_store
   \<and> available sample_store (Some (consistency_for_role ''cassandra'' ''A''))
   \<and> row_A \<in> set (roles_rows sample_store) \<and> col_role row_A = ''A''
   \<and> fst (create ''cassandra'' ''A'' \<lparr>cfg_is_superuser = True, cfg_can_login = False\<rparr> sample_store) = Inr ()
   \<and> set (roles_rows (snd (create ''cassandra'' ''A''
            \<lparr>cfg_is_superuser = True, cfg_can_login = False\<rparr> sample_store))) =
       {\<lparr>col_role = ''A'', col_is_superuser = Some True, col_can_login = Some False,
         col_member_of = Some [''B'']\<rparr>, row_B}
   \<and> map col_role (roles_rows sample_store) = [''A'', ''B'']
   \<and> roles_rows (snd (create ''cassandra'' ''Z''
            \<lparr>cfg_is_superuser = False, cfg_can_login = True\<rparr> sample_store)) =
       [row_A, row_B, \<lparr>col_role = ''Z'', col_is_superuser = Some False, col_can_login = Some True,
                       col_member_of = None\<rparr>]"
proof -
  have pk: "primary_key sample_store"
    by (simp add: primary_key_def sample_store_def row_A_def row_B_def)
  have avA: "available sample_store (Some (consistency_for_role ''cassandra'' ''A''))"
    by (simp add: sample_store_def)
  have avZ: "available sample_store (Some (consistency_for_role ''cassandra'' ''Z''))"
    by (simp add: sample_store_def)
  have rowA: "row_A \<in> set (roles_rows sample_store)" "col_role row_A = ''A''"
    by (simp_all add: sample_store_def row_A_def)
  have noZ: "\<forall>row\<in>set (roles_rows sample_store). col_role row \<noteq> ''Z''"
    by (simp add: sample_store_def row_A_def row_B_def)
  have rows: "roles_rows sample_store = [row_A, row_B]" by (simp add: sample_store_def)
  have upd: "row_A\<lparr>col_is_superuser := Some True, col_can_login := Some False\<rparr> =
      \<lparr>col_role = ''A'', col_is_superuser = Some True, col_can_login = Some False,
       col_member_of = Some [''B'']\<rparr>"
    by (simp add: row_A_def)
  have diff: "set (roles_rows sample_store) - {row_A} = {row_B}"
    by (auto simp: sample_store_def row_A_def row_B_def)
  note factsA = create_is_upsert [OF pk avA, of "\<lparr>cfg_is_superuser = True, cfg_can_login = False\<rparr>"]
  have okA: "fst (create ''cassandra'' ''A'' \<lparr>cfg_is_superuser = True, cfg_can_login = False\<rparr> sample_store) = Inr ()"
    using factsA by blast
  have "\<forall>row\<in>set (roles_rows sample_store). col_role row = ''A'' \<longrightarrow>
          set (roles_rows (snd (create ''cassandra'' ''A''
                 \<lparr>cfg_is_superuser = True, cfg_can_login = False\<rparr> sample_store))) =
            insert (row\<lparr>col_is_superuser := Some (cfg_is_superuser \<lparr>cfg_is_superuser = True, cfg_can_login = False\<rparr>),
                         col_can_login := Some (cfg_can_login \<lparr>cfg_is_superuser = True, cfg_can_login = False\<rparr>)\<rparr>)
              (set (roles_rows sample_store) - {row})"
    using factsA by blast
  then have setA: "set (roles_rows (snd (create ''cassandra'' ''A''
            \<lparr>cfg_is_superuser = True, cfg_can_login = False\<rparr> sample_store))) =
       insert (row_A\<lparr>col_is_superuser := Some True, col_can_login := Some False\<rparr>)
         (set (roles_rows sample_store) - {row_A})"
    using rowA by (simp del: set_simps)
  note factsZ = create_is_upsert [OF pk avZ, of "\<lparr>cfg_is_superuser = False, cfg_can_login = True\<rparr>"]
  have "(\<forall>row\<in>set (roles_rows sample_store). col_role row \<noteq> ''Z'') \<longrightarrow>
          roles_rows (snd (create ''cassandra'' ''Z''
                 \<lparr>cfg_is_superuser = False, cfg_can_login = True\<rparr> sample_store)) =
            roles_rows sample_store @ [\<lparr>col_role = ''Z'',
               col_is_superuser = Some (cfg_is_superuser \<lparr>cfg_is_superuser = False, cfg_can_login = True\<rparr>),
               col_can_login = Some (cfg_can_login \<lparr>cfg_is_superuser = False, cfg_can_login = True\<rparr>),
               col_member_of = None\<rparr>]"
    using factsZ by blast
  then have newZ: "roles_rows (snd (create ''cassandra'' ''Z''
            \<lparr>cfg_is_superuser = False, cfg_can_login = True\<rparr> sample_store)) =
       roles_rows sample_store @ [\<lparr>col_role = ''Z'', col_is_superuser = Some False,
                                   col_can_login = Some True, col_member_of = None\<rparr>]"
    using noZ by simp
  have setA': "set (roles_rows (snd (create ''cassandra'' ''A''
            \<lparr>cfg_is_superuser = True, cfg_can_login = False\<rparr> sample_store))) =
       {\<lparr>col_role = ''A'', col_is_superuser = Some True, col_can_login = Some False,
         col_member_of = Some [''B'']\<rparr>, row_B}"
    using setA by (simp only: upd diff)
  have newZ': "roles_rows (snd (create ''cassandra'' ''Z''
            \<lparr>cfg_is_superuser = False, cfg_can_login = True\<rparr> sample_store)) =
       [row_A, row_B, \<lparr>col_role = ''Z'', col_is_superuser = Some False, col_can_login = Some True,
                       col_member_of = None\<rparr>]"
    using newZ by (simp add: rows)
  have keys: "map col_role (roles_rows sample_store) = [''A'', ''B'']"
    by (simp add: sample_store_def row_A_def row_B_def)
  show ?thesis
    using pk avA rowA okA setA' keys newZ' by (intro conjI)
qed

end
